theory Spec2Isabelle
  imports Complex_Main "HOL-Library.Sublist"
begin

section \<open>Python values, errors and containers\<close>

text \<open>
  The exceptions the modelled functions of \<^verbatim>\<open>dmft_cycle.py\<close> and
  \<^verbatim>\<open>dmft_tools/initial_self_energies.py\<close> can raise. A function that may raise returns
  \<open>py_error + 'a\<close>, with \<open>Inl\<close> for the exception.
\<close>

datatype py_error =
    IndexError | KeyError | ValueError | TypeError | NameError
  | NotImplementedError | ZeroDivisionError

definition rbind :: "'e + 'a \<Rightarrow> ('a \<Rightarrow> 'e + 'b) \<Rightarrow> 'e + 'b" where
  "rbind m f = (case m of Inl e \<Rightarrow> Inl e | Inr x \<Rightarrow> f x)"

text \<open>A \<^verbatim>\<open>for\<close> loop that updates a state and stops at the first exception.\<close>

fun for_each :: "('a \<Rightarrow> 's \<Rightarrow> 'e + 's) \<Rightarrow> 'a list \<Rightarrow> 's \<Rightarrow> 'e + 's" where
  "for_each f [] s = Inr s"
| "for_each f (x # xs) s = (case f x s of Inl e \<Rightarrow> Inl e | Inr s' \<Rightarrow> for_each f xs s')"

text \<open>A list comprehension whose element expression may raise.\<close>

fun map_result :: "('a \<Rightarrow> 'e + 'b) \<Rightarrow> 'a list \<Rightarrow> 'e + 'b list" where
  "map_result f [] = Inr []"
| "map_result f (x # xs) =
     (case f x of Inl e \<Rightarrow> Inl e
      | Inr y \<Rightarrow> (case map_result f xs of Inl e \<Rightarrow> Inl e | Inr ys \<Rightarrow> Inr (y # ys)))"

text \<open>\<^verbatim>\<open>xs[i]\<close> for an index that is never negative: IndexError out of range.\<close>

definition py_nth :: "'a list \<Rightarrow> nat \<Rightarrow> py_error + 'a" where
  "py_nth xs i = (if i < length xs then Inr (xs ! i) else Inl IndexError)"

text \<open>\<^verbatim>\<open>xs[i] = v\<close>: IndexError out of range.\<close>

definition py_set :: "'a list \<Rightarrow> nat \<Rightarrow> 'a \<Rightarrow> py_error + 'a list" where
  "py_set xs i v = (if i < length xs then Inr (xs[i := v]) else Inl IndexError)"

text \<open>\<^verbatim>\<open>s in t\<close> on strings: \<open>s\<close> occurs in \<open>t\<close> as a contiguous substring.\<close>

fun str_in :: "string \<Rightarrow> string \<Rightarrow> bool" where
  "str_in s [] = (s = [])"
| "str_in s (c # cs) = (prefix s (c # cs) \<or> str_in s cs)"

text \<open>The values a parameter of the configuration dictionaries can hold.\<close>

datatype pyval =
    PNone | PBool bool | PInt int | PFloat real | PStr string | PList "pyval list"

section \<open>Per-impurity parameters: \<^verbatim>\<open>_extract_quantity_per_inequiv\<close>\<close>

text \<open>
  \<^verbatim>\<open>param = general_params[param_name]\<close> raises KeyError for a missing key. A value that
  is not a list is replaced by \<^verbatim>\<open>[param] * n_inequiv_shells\<close> (the empty list when the
  count is not positive); a list of the right length leaves the dictionary as it is; any
  other list raises IndexError. The calls of \<^verbatim>\<open>mpi.report\<close> only print.
\<close>

definition extract_quantity_per_inequiv ::
  "string \<Rightarrow> int \<Rightarrow> (string \<rightharpoonup> pyval) \<Rightarrow> py_error + (string \<rightharpoonup> pyval)" where
  "extract_quantity_per_inequiv param_name n_inequiv_shells general_params =
     (case general_params param_name of
        None \<Rightarrow> Inl KeyError
      | Some param \<Rightarrow>
          (case param of
             PList ps \<Rightarrow>
               if int (length ps) = n_inequiv_shells then Inr general_params
               else Inl IndexError
           | _ \<Rightarrow>
               Inr (general_params(param_name \<mapsto>
                      PList (replicate (nat n_inequiv_shells) param)))))"

text \<open>
  The setup of \<^verbatim>\<open>dmft_cycle\<close> runs the expansion over a fixed list of keys, each call
  working on the dictionary the previous one returned, before the iteration loop starts.
\<close>

definition general_keys :: "string list" where
  "general_keys = [''U'', ''J'', ''U_prime'', ''ratio_F4_F2'', ''h_int_type'',
                   ''enforce_off_diag'', ''dc_type'']"

definition advanced_keys :: "string list" where
  "advanced_keys = [''dc_U'', ''dc_J'', ''dc_fixed_occ'', ''map_solver_struct'',
                    ''pick_solver_struct'', ''mapped_solver_struct_degeneracies'']"

definition check_impurity_params ::
  "int \<Rightarrow> (string \<rightharpoonup> pyval) \<Rightarrow> (string \<rightharpoonup> pyval)
   \<Rightarrow> py_error + ((string \<rightharpoonup> pyval) \<times> (string \<rightharpoonup> pyval))" where
  "check_impurity_params n general_params advanced_params =
     rbind (for_each (\<lambda>key gp. extract_quantity_per_inequiv key n gp) general_keys general_params)
       (\<lambda>gp. rbind (for_each (\<lambda>key ap. extract_quantity_per_inequiv key n ap)
                       advanced_keys advanced_params)
          (\<lambda>ap. Inr (gp, ap)))"

section \<open>The convergence flag of \<^verbatim>\<open>_dmft_step\<close>\<close>

text \<open>
  Of one DMFT step the model keeps what decides the returned flag \<^verbatim>\<open>is_converged\<close>:
  the flag on entry, and the result of \<^verbatim>\<open>convergence.check_convergence\<close> for this
  iteration, which is \<^verbatim>\<open>None\<close>, \<^verbatim>\<open>True\<close> or \<^verbatim>\<open>False\<close> and is a parameter here
  (the convergence module is not part of the modelled files).

  With \<^verbatim>\<open>general_params['dc']\<close> and \<^verbatim>\<open>general_params['dc_dmft']\<close> both set, the step calls
  \<^verbatim>\<open>calculate_double_counting\<close> with five positional arguments, where the function has
  six required parameters: Python raises TypeError and the step does not return.
\<close>

definition dmft_step :: "bool \<Rightarrow> bool \<Rightarrow> bool option \<Rightarrow> bool \<Rightarrow> py_error + bool" where
  "dmft_step dc dc_dmft is_now_converged is_converged =
     (if dc \<and> dc_dmft then Inl TypeError
      else Inr (case is_now_converged of
                  None \<Rightarrow> False
                | Some now \<Rightarrow> is_converged \<or> now))"

section \<open>The lattice object \<^verbatim>\<open>sum_k\<close> and the parameter dictionaries\<close>

text \<open>
  A dictionary whose iteration order matters is an association list in insertion order.
  Numpy arrays of rank two are lists of rows; the double-counting potentials are real
  arrays, the density matrices complex ones. Floating-point numbers are modelled by the
  reals.
\<close>

type_synonym 'v pydict = "(string \<times> 'v) list"
type_synonym rmatrix = "real list list"
type_synonym cmatrix = "complex list list"
type_synonym density = "cmatrix pydict"

text \<open>
  A Green's function or self-energy block (\<^verbatim>\<open>Gf\<close>): the number of mesh points, the
  dimension of the square target space, and the entry \<^verbatim>\<open>data[iw, i, j]\<close>. A
  \<^verbatim>\<open>BlockGf\<close> is a dictionary of named blocks.
\<close>

record gf =
  n_mesh :: nat
  dim :: nat
  data :: "nat \<Rightarrow> nat \<Rightarrow> nat \<Rightarrow> complex"

type_synonym blockgf = "gf pydict"

text \<open>
  The fields of the \<^verbatim>\<open>SumkDFT\<close> object that the modelled functions read or write.
  \<^verbatim>\<open>sum_k.deg_shells\<close> and \<^verbatim>\<open>sum_k.block_structure.deg_shells\<close> are the same
  attribute; an entry of it is \<^verbatim>\<open>None\<close> or a list of groups of block labels.
  \<open>corr_shells_dim\<close> holds \<^verbatim>\<open>corr_shells[i]['dim']\<close>.
\<close>

record sumk =
  SO :: int
  n_inequiv_shells :: nat
  n_corr_shells :: nat
  corr_to_inequiv :: "nat list"
  inequiv_to_corr :: "nat list"
  corr_shells_dim :: "nat list"
  gf_struct_solver :: "nat pydict list"
  solver_to_sumk :: "((string \<times> nat) \<times> (string \<times> nat)) list list"
  use_rotations :: bool
  deg_shells :: "string list list option list"
  dc_imp :: "rmatrix pydict list"
  dc_energ :: "real list"
  Sigma_imp :: "blockgf list"

datatype dc_tag = DcInt int | DcStr string

record general =
  block_threshold :: real
  enforce_off_diag :: "bool list"
  magnetic :: bool
  dc_type :: "dc_tag list"

record ('p, 'm) advanced =
  pick_solver_struct :: "'p option list"
  map_solver_struct :: "'m option list"
  mapped_solver_struct_degeneracies :: "string list list option list"
  dc_fixed_value :: "real option"
  dc_fixed_occ :: "real option list"
  dc_U :: "real list"
  dc_J :: "real list"
  dc_nominal :: bool
  dc_factor :: "real option"
  dc_orb_shift :: "real list option"

section \<open>Block structure: \<^verbatim>\<open>_determine_block_structure\<close>\<close>

text \<open>\<^verbatim>\<open>[i for i, s in enumerate(xs) if P s]\<close>\<close>

definition indices_where :: "('a \<Rightarrow> bool) \<Rightarrow> 'a list \<Rightarrow> nat list" where
  "indices_where P xs = map fst (filter (\<lambda>(i, s). P s) (enumerate 0 xs))"

text \<open>
  The magnetic branch, for one degeneracy group: for \<^verbatim>\<open>spin\<close> in \<^verbatim>\<open>['up', 'down']\<close>,
  the labels of the group that contain \<^verbatim>\<open>spin\<close> as a substring, kept when there is more
  than one of them.
\<close>

definition lift_spin_group :: "string list \<Rightarrow> string list list" where
  "lift_spin_group deg_orbs =
     concat (map (\<lambda>spin. let deg = filter (str_in spin) deg_orbs
                          in if length deg > 1 then [deg] else [])
                 [''up'', ''down''])"

text \<open>For one site; iterating over an entry that is \<^verbatim>\<open>None\<close> raises TypeError.\<close>

definition lift_spin_site ::
  "string list list option \<Rightarrow> py_error + string list list option" where
  "lift_spin_site deg_shells_site =
     (case deg_shells_site of
        None \<Rightarrow> Inl TypeError
      | Some groups \<Rightarrow> Inr (Some (concat (map lift_spin_group groups))))"

text \<open>
  The last step of the function: the magnetic branch replaces every site's entry in turn,
  the spin-orbit branch replaces the whole list by empty lists.
\<close>

definition lift_degeneracies :: "bool \<Rightarrow> sumk \<Rightarrow> py_error + sumk" where
  "lift_degeneracies is_magnetic sum_k =
     (if is_magnetic \<and> SO sum_k = 0
      then rbind (map_result lift_spin_site (deg_shells sum_k))
             (\<lambda>ds. Inr (sum_k\<lparr>deg_shells := ds\<rparr>))
      else if SO sum_k = 1
      then Inr (sum_k\<lparr>deg_shells := replicate (n_inequiv_shells sum_k) (Some [])\<rparr>)
      else Inr sum_k)"

text \<open>
  The degeneracies evaluated for the ftps solver on a deep copy of the object:
  \<^verbatim>\<open>None\<close> when no impurity uses it.
\<close>

definition ftps_degeneracies ::
  "(nat list \<Rightarrow> sumk \<Rightarrow> sumk) \<Rightarrow> sumk \<Rightarrow> nat list
   \<Rightarrow> py_error + string list list option list option" where
  "ftps_degeneracies analyse_with sum_k imp_ftps =
     (if imp_ftps \<noteq> []
      then (let mock_sumk = analyse_with imp_ftps sum_k
            in rbind (map_result
                        (\<lambda>icrsh. if icrsh \<in> set imp_ftps
                                  then py_nth (deg_shells mock_sumk) icrsh
                                  else Inr None)
                        [0..<n_inequiv_shells sum_k])
                 (\<lambda>ds. Inr (Some ds)))
      else Inr None)"

text \<open>The manual mapping of the solver structure and of its degeneracies.\<close>

definition apply_manual_mapping ::
  "('m option list \<Rightarrow> sumk \<Rightarrow> sumk) \<Rightarrow> ('p, 'm) advanced \<Rightarrow> sumk \<Rightarrow> sumk" where
  "apply_manual_mapping mapg advanced_params sum_k =
     (if list_ex (\<lambda>s. s \<noteq> None) (map_solver_struct advanced_params)
      then (let sk' = mapg (map_solver_struct advanced_params) sum_k
            in if list_ex (\<lambda>s. s \<noteq> None) (mapped_solver_struct_degeneracies advanced_params)
               then sk'\<lparr>deg_shells := mapped_solver_struct_degeneracies advanced_params\<rparr>
               else sk')
      else sum_k)"

text \<open>
  The library methods \<^verbatim>\<open>analyse_block_structure\<close>, \<^verbatim>\<open>pick_gf_struct_solver\<close> and
  \<^verbatim>\<open>map_gf_struct_solver\<close> are parameters (\<open>analyse\<close>, \<open>pick\<close>, \<open>mapg\<close>): each takes the
  object and returns it updated. The function returns the object and \<^verbatim>\<open>deg_orbs_ftps\<close>.

  When some \<^verbatim>\<open>pick_solver_struct\<close> entry is not \<^verbatim>\<open>None\<close>, the report in that branch
  reads the local variable \<^verbatim>\<open>icrsh\<close>, which at that point has been bound only inside
  comprehensions and is assigned by a \<^verbatim>\<open>for\<close> loop further down: Python raises
  UnboundLocalError, a NameError, before \<open>pick\<close> is called.
\<close>

definition determine_block_structure ::
  "('d \<Rightarrow> real \<Rightarrow> nat list \<Rightarrow> sumk \<Rightarrow> sumk) \<Rightarrow> ('p option list \<Rightarrow> sumk \<Rightarrow> sumk)
   \<Rightarrow> ('m option list \<Rightarrow> sumk \<Rightarrow> sumk)
   \<Rightarrow> sumk \<Rightarrow> general \<Rightarrow> ('p, 'm) advanced \<Rightarrow> string list \<Rightarrow> 'd
   \<Rightarrow> py_error + (sumk \<times> string list list option list option)" where
  "determine_block_structure analyse pick mapg sum_k general_params advanced_params
       solver_type_per_imp dens_mat =
     (let sk1 = (if SO sum_k = 0
                 then sum_k\<lparr>deg_shells :=
                        replicate (n_inequiv_shells sum_k) (Some [[''up_0'', ''down_0'']])\<rparr>
                 else sum_k);
          imp_ftps = indices_where (\<lambda>s. s = ''ftps'') solver_type_per_imp
      in rbind (ftps_degeneracies (analyse dens_mat (block_threshold general_params)) sk1 imp_ftps)
           (\<lambda>deg_orbs_ftps.
              let imp_to_analyze =
                    indices_where (\<lambda>offdiag. \<not> offdiag) (enforce_off_diag general_params);
                  sk2 = analyse dens_mat (block_threshold general_params) imp_to_analyze sk1
              in if list_ex (\<lambda>s. s \<noteq> None) (pick_solver_struct advanced_params)
                 then Inl NameError
                 else rbind (lift_degeneracies (magnetic general_params)
                               (apply_manual_mapping mapg advanced_params sk2))
                        (\<lambda>sk. Inr (sk, deg_orbs_ftps))))"

section \<open>Arrays and dictionaries\<close>

text \<open>\<^verbatim>\<open>d[k] = v\<close> on a dictionary: an existing key keeps its place, a new one goes last.\<close>

fun dict_set :: "string \<Rightarrow> 'v \<Rightarrow> 'v pydict \<Rightarrow> 'v pydict" where
  "dict_set k v [] = [(k, v)]"
| "dict_set k v ((k', v') # d) = (if k = k' then (k, v) # d else (k', v') # dict_set k v d)"

definition dict_get :: "'v pydict \<Rightarrow> string \<Rightarrow> py_error + 'v" where
  "dict_get d k = (case map_of d k of None \<Rightarrow> Inl KeyError | Some v \<Rightarrow> Inr v)"

text \<open>\<^verbatim>\<open>np.identity(n)\<close>, \<^verbatim>\<open>np.diag(v)\<close> of a vector, and a scalar times an array.\<close>

definition identity :: "nat \<Rightarrow> rmatrix" where
  "identity n = map (\<lambda>i. map (\<lambda>j. if i = j then 1 else 0) [0..<n]) [0..<n]"

definition diag :: "real list \<Rightarrow> rmatrix" where
  "diag v = map (\<lambda>i. map (\<lambda>j. if i = j then v ! i else 0) [0..<length v]) [0..<length v]"

definition smult :: "real \<Rightarrow> rmatrix \<Rightarrow> rmatrix" where
  "smult c a = map (map (\<lambda>x. c * x)) a"

text \<open>
  \<^verbatim>\<open>np.fill_diagonal(a, v)\<close> writes \<open>v\<close> at every \<^verbatim>\<open>a[i, i]\<close> that exists;
  \<^verbatim>\<open>np.trace(a.real)\<close> sums the real parts of these entries.
\<close>

definition fill_diagonal :: "cmatrix \<Rightarrow> complex \<Rightarrow> cmatrix" where
  "fill_diagonal a v =
     map (\<lambda>(i, row). if i < length row then row[i := v] else row) (enumerate 0 a)"

definition trace_real :: "cmatrix \<Rightarrow> real" where
  "trace_real a =
     sum_list (map (\<lambda>(i, row). if i < length row then Re (row ! i) else 0) (enumerate 0 a))"

text \<open>
  An elementwise operation on two arrays of rank two (\<^verbatim>\<open>a + b\<close>, \<^verbatim>\<open>a - b\<close>), with
  numpy's broadcasting: along each axis the extents must agree or one of them must be
  1, and an axis of extent 1 is repeated. A mismatch raises ValueError.
\<close>

definition shape :: "'a list list \<Rightarrow> nat \<times> nat" where
  "shape a = (length a, case a of [] \<Rightarrow> 0 | row # _ \<Rightarrow> length row)"

definition bdim :: "nat \<Rightarrow> nat \<Rightarrow> nat" where
  "bdim m n = (if m = 1 then n else m)"

definition broadcast2 ::
  "('a \<Rightarrow> 'b \<Rightarrow> 'c) \<Rightarrow> 'a list list \<Rightarrow> 'b list list \<Rightarrow> py_error + 'c list list" where
  "broadcast2 f a b =
     (case (shape a, shape b) of ((r1, c1), (r2, c2)) \<Rightarrow>
        if (r1 = r2 \<or> r1 = 1 \<or> r2 = 1) \<and> (c1 = c2 \<or> c1 = 1 \<or> c2 = 1)
        then Inr (map (\<lambda>i. map (\<lambda>j.
                      f (a ! (if r1 = 1 then 0 else i) ! (if c1 = 1 then 0 else j))
                        (b ! (if r2 = 1 then 0 else i) ! (if c2 = 1 then 0 else j)))
                    [0..<bdim c1 c2]) [0..<bdim r1 r2])
        else Inl ValueError)"

definition np_add :: "rmatrix \<Rightarrow> rmatrix \<Rightarrow> py_error + rmatrix" where
  "np_add a b = broadcast2 (\<lambda>x y. x + y) a b"

definition np_sub :: "rmatrix \<Rightarrow> rmatrix \<Rightarrow> py_error + rmatrix" where
  "np_sub a b = broadcast2 (\<lambda>x y. x - y) a b"

text \<open>
  \<^verbatim>\<open>np.allclose(a, b, atol=1e-4, rtol=0)\<close>: every entry of the broadcast pair differs
  by at most the absolute tolerance.
\<close>

definition np_allclose :: "rmatrix \<Rightarrow> rmatrix \<Rightarrow> py_error + bool" where
  "np_allclose a b =
     rbind (broadcast2 (\<lambda>x y. \<bar>x - y\<bar> \<le> 1 / 10000) a b)
       (\<lambda>m. Inr (list_all (list_all (\<lambda>c. c)) m))"

text \<open>
  \<^verbatim>\<open>np.array(rows)\<close> on a list of lists of numbers is an array of rank two when all
  rows have one length. Ragged rows make numpy raise ValueError (older versions build
  an array of objects, on which the index \<^verbatim>\<open>[icrsh, :]\<close> used next raises).
\<close>

definition np_array :: "real list list \<Rightarrow> py_error + real list list" where
  "np_array rows =
     (if list_all (\<lambda>r. length r = length (hd rows)) rows then Inr rows else Inl ValueError)"

section \<open>Library primitives of the lattice object used for the double counting\<close>

text \<open>
  \<^verbatim>\<open>calc_dc\<close> and \<^verbatim>\<open>set_dc\<close> are methods of the library class \<^verbatim>\<open>SumkDFT\<close>.
  \<^verbatim>\<open>calc_dc(dens_mat, orb, ...)\<close> visits every correlated shell equivalent to the
  inequivalent shell \<open>orb\<close> and writes its potential and energy. With
  \<^verbatim>\<open>use_dc_value\<close> the potential of each spin block is the value times the identity of
  the shell's dimension, and the energy is the value times the total occupation
  \<open>Ncrtot\<close>, the sum of the real traces of the density-matrix blocks of the solver
  structure. Without it the library evaluates the formula selected by
  \<^verbatim>\<open>use_dc_formula\<close> from \<^verbatim>\<open>U_interact\<close> and \<^verbatim>\<open>J_hund\<close>: that part is the parameter
  \<open>formula\<close>, which gives the shell's potential and energy.
\<close>

datatype dc_request =
    UseValue real
  | UseFormula real real dc_tag

type_synonym dc_formula =
  "sumk \<Rightarrow> nat \<Rightarrow> density \<Rightarrow> real \<Rightarrow> real \<Rightarrow> dc_tag \<Rightarrow> py_error + (rmatrix pydict \<times> real)"

definition spin_block_names :: "int \<Rightarrow> py_error + string list" where
  "spin_block_names so =
     (if so = 0 \<or> so = - 2 then Inr [''up'', ''down'']
      else if so = 1 \<or> so = - 1 then Inr [''ud'']
      else Inl IndexError)"

definition Ncrtot :: "sumk \<Rightarrow> nat \<Rightarrow> density \<Rightarrow> py_error + real" where
  "Ncrtot sum_k ish dens_mat =
     rbind (py_nth (gf_struct_solver sum_k) ish)
       (\<lambda>struct. rbind (map_result (\<lambda>(block, _). dict_get dens_mat block) struct)
          (\<lambda>blocks. Inr (sum_list (map trace_real blocks))))"

definition calc_dc_shell ::
  "dc_formula \<Rightarrow> density \<Rightarrow> dc_request \<Rightarrow> nat \<Rightarrow> nat \<Rightarrow> sumk \<Rightarrow> py_error + sumk" where
  "calc_dc_shell formula dens_mat request ish icrsh sum_k =
     rbind
       (case request of
          UseValue use_dc_value \<Rightarrow>
            rbind (py_nth (corr_shells_dim sum_k) icrsh)
              (\<lambda>d. rbind (spin_block_names (SO sum_k))
                 (\<lambda>spn. rbind (Ncrtot sum_k ish dens_mat)
                    (\<lambda>n. rbind (py_nth (dc_imp sum_k) icrsh)
                       (\<lambda>old. Inr (foldl (\<lambda>dc sp. dict_set sp (smult use_dc_value (identity d)) dc)
                                      old spn,
                                    use_dc_value * n)))))
        | UseFormula U_interact J_hund use_dc_formula \<Rightarrow>
            formula sum_k icrsh dens_mat U_interact J_hund use_dc_formula)
       (\<lambda>(pot, en).
          rbind (py_set (dc_imp sum_k) icrsh pot)
            (\<lambda>imp. rbind (py_set (dc_energ sum_k) icrsh en)
               (\<lambda>energ. Inr (sum_k\<lparr>dc_imp := imp, dc_energ := energ\<rparr>))))"

definition calc_dc ::
  "dc_formula \<Rightarrow> sumk \<Rightarrow> density \<Rightarrow> nat \<Rightarrow> dc_request \<Rightarrow> py_error + sumk" where
  "calc_dc formula sum_k dens_mat orb request =
     for_each
       (\<lambda>icrsh sk. rbind (py_nth (corr_to_inequiv sk) icrsh)
          (\<lambda>ish. if ish \<noteq> orb then Inr sk
                  else calc_dc_shell formula dens_mat request ish icrsh sk))
       [0..<n_corr_shells sum_k] sum_k"

definition set_dc :: "rmatrix pydict list \<Rightarrow> real list \<Rightarrow> sumk \<Rightarrow> sumk" where
  "set_dc imp energ sum_k = sum_k\<lparr>dc_imp := imp, dc_energ := energ\<rparr>"

section \<open>Double counting: \<^verbatim>\<open>calculate_double_counting\<close>\<close>

text \<open>
  The function works on three objects: the lattice object, mutated in place and returned;
  the caller's list \<^verbatim>\<open>density_matrix\<close>; and \<^verbatim>\<open>density_matrix_DC\<close>, the deep copy
  taken on entry. The frame holds all three, so that every write names the object it
  goes to. The density matrices of different shells are distinct objects.
\<close>

record dc_frame =
  fr_sum_k :: sumk
  fr_density_matrix :: "density list"
  fr_density_matrix_DC :: "density list"

text \<open>
  \<^verbatim>\<open>sum_k.calc_dc(density_matrix_DC[icrsh], orb=icrsh, ...)\<close>: the argument is read from
  the copy.
\<close>

definition calc_dc_on_copy ::
  "dc_formula \<Rightarrow> dc_request \<Rightarrow> nat \<Rightarrow> dc_frame \<Rightarrow> py_error + dc_frame" where
  "calc_dc_on_copy formula request icrsh fr =
     rbind (py_nth (fr_density_matrix_DC fr) icrsh)
       (\<lambda>dens. rbind (calc_dc formula (fr_sum_k fr) dens icrsh request)
          (\<lambda>sk. Inr (fr\<lparr>fr_sum_k := sk\<rparr>)))"

text \<open>The potential of the impurities solved by the Hartree solver is set to zero.\<close>

definition dc_zero_hartree ::
  "dc_formula \<Rightarrow> nat list \<Rightarrow> dc_frame \<Rightarrow> py_error + dc_frame" where
  "dc_zero_hartree formula icrsh_hartree fr =
     for_each (calc_dc_on_copy formula (UseValue 0)) icrsh_hartree fr"

text \<open>With \<^verbatim>\<open>dc_fixed_value\<close> the other impurities get that value and the function returns.\<close>

definition dc_fixed_value_stage ::
  "dc_formula \<Rightarrow> real \<Rightarrow> nat list \<Rightarrow> dc_frame \<Rightarrow> py_error + dc_frame" where
  "dc_fixed_value_stage formula v icrsh_not_hartree fr =
     for_each (calc_dc_on_copy formula (UseValue v)) icrsh_not_hartree fr"

text \<open>
  Fixed occupation: the diagonal of every block of the copy's density matrix of the
  impurity is overwritten with \<^verbatim>\<open>dc_fixed_occ[icrsh]/(n_orb*2)\<close>; the division raises
  ZeroDivisionError for a shell of dimension zero.
\<close>

definition dc_fixed_occ_site ::
  "real option list \<Rightarrow> nat \<Rightarrow> dc_frame \<Rightarrow> py_error + dc_frame" where
  "dc_fixed_occ_site fixed_occ icrsh fr =
     rbind (py_nth fixed_occ icrsh)
       (\<lambda>occ. case occ of
          None \<Rightarrow> Inr fr
        | Some n \<Rightarrow>
            rbind (py_nth (corr_shells_dim (fr_sum_k fr)) icrsh)
              (\<lambda>n_orb. if n_orb * 2 = 0 then Inl ZeroDivisionError
                 else (let orb_occ = n / real (n_orb * 2)
                       in rbind (py_nth (fr_density_matrix_DC fr) icrsh)
                            (\<lambda>dens. Inr (fr\<lparr>fr_density_matrix_DC :=
                                 (fr_density_matrix_DC fr)
                                   [icrsh := map (\<lambda>(block, inner).
                                                (block, fill_diagonal inner (complex_of_real orb_occ)))
                                              dens]\<rparr>)))))"

definition dc_fixed_occ_stage ::
  "real option list \<Rightarrow> nat list \<Rightarrow> dc_frame \<Rightarrow> py_error + dc_frame" where
  "dc_fixed_occ_stage fixed_occ icrsh_not_hartree fr =
     for_each (dc_fixed_occ_site fixed_occ) icrsh_not_hartree fr"

text \<open>
  The base formula of one impurity. For the three \<^verbatim>\<open>crpa\<close> tags the potential comes
  from the GW embedding, which is outside the modelled files: the parameter \<open>crpa\<close>
  gives \<^verbatim>\<open>Sig_DC_hartree\<close>, stored at \<^verbatim>\<open>sum_k.dc_imp[icrsh]\<close> (the dynamic part kept
  in \<^verbatim>\<open>dc_imp_dyn\<close> is not modelled).
\<close>

definition crpa_tags :: "dc_tag list" where
  "crpa_tags = [DcStr ''crpa_static'', DcStr ''crpa_static_qp'', DcStr ''crpa_dynamic'']"

definition dc_base_site ::
  "dc_formula \<Rightarrow> (sumk \<Rightarrow> nat \<Rightarrow> dc_tag \<Rightarrow> py_error + rmatrix pydict)
   \<Rightarrow> general \<Rightarrow> ('p, 'm) advanced \<Rightarrow> nat \<Rightarrow> dc_frame \<Rightarrow> py_error + dc_frame" where
  "dc_base_site formula crpa general_params advanced_params icrsh fr =
     rbind (py_nth (dc_type general_params) icrsh)
       (\<lambda>tag.
          if tag = DcInt 3
          then rbind (py_nth (dc_U advanced_params) icrsh)
                 (\<lambda>U. rbind (py_nth (dc_J advanced_params) icrsh)
                    (\<lambda>J. calc_dc_on_copy formula (UseFormula (U - J) (2 * J) (DcInt 0)) icrsh fr))
          else if tag \<in> set crpa_tags
          then rbind (crpa (fr_sum_k fr) icrsh tag)
                 (\<lambda>Sig_DC_hartree.
                    rbind (py_set (dc_imp (fr_sum_k fr)) icrsh Sig_DC_hartree)
                      (\<lambda>imp. Inr (fr\<lparr>fr_sum_k := (fr_sum_k fr)\<lparr>dc_imp := imp\<rparr>\<rparr>)))
          else rbind (py_nth (dc_U advanced_params) icrsh)
                 (\<lambda>U. rbind (py_nth (dc_J advanced_params) icrsh)
                    (\<lambda>J. calc_dc_on_copy formula (UseFormula U J tag) icrsh fr)))"

definition dc_base_formula ::
  "dc_formula \<Rightarrow> (sumk \<Rightarrow> nat \<Rightarrow> dc_tag \<Rightarrow> py_error + rmatrix pydict)
   \<Rightarrow> general \<Rightarrow> ('p, 'm) advanced \<Rightarrow> nat list \<Rightarrow> dc_frame \<Rightarrow> py_error + dc_frame" where
  "dc_base_formula formula crpa general_params advanced_params icrsh_not_hartree fr =
     for_each (dc_base_site formula crpa general_params advanced_params) icrsh_not_hartree fr"

text \<open>
  Nominal double counting: the potential is a deep copy of the current one; the energy
  of shell \<open>ish\<close> is the sum over its blocks of \<^verbatim>\<open>n_DC * dc_per_spin[0][0]\<close> divided by
  the number of blocks, where \<^verbatim>\<open>n_DC\<close> is the total real trace of the caller's density
  matrix of the shell's impurity.
\<close>

definition n_DC :: "density \<Rightarrow> real" where
  "n_DC dens = foldl (\<lambda>n (block, v). n + trace_real v) 0 dens"

definition nominal_energy :: "real \<Rightarrow> rmatrix pydict \<Rightarrow> py_error + real" where
  "nominal_energy n dc_shell =
     rbind (map_result (\<lambda>(spin, dc_per_spin).
                rbind (py_nth dc_per_spin 0) (\<lambda>row. rbind (py_nth row 0) (\<lambda>v. Inr (n * v))))
              dc_shell)
       (\<lambda>terms. if length dc_shell = 0 then Inl ZeroDivisionError
                 else Inr (foldl (+) 0 terms / real (length dc_shell)))"

definition dc_nominal_shell ::
  "density list \<Rightarrow> nat list \<Rightarrow> rmatrix pydict list \<Rightarrow> nat \<Rightarrow> real list
   \<Rightarrow> py_error + real list" where
  "dc_nominal_shell density_matrix c2i imp ish dc_new_en =
     rbind (py_nth c2i ish)
       (\<lambda>iineq. rbind (py_nth density_matrix iineq)
          (\<lambda>dens. rbind (py_set dc_new_en ish 0)
             (\<lambda>_. rbind (py_nth imp ish)
                (\<lambda>dc_shell. rbind (nominal_energy (n_DC dens) dc_shell)
                   (\<lambda>e. py_set dc_new_en ish e)))))"

definition dc_nominal_hook :: "string list \<Rightarrow> dc_frame \<Rightarrow> py_error + dc_frame" where
  "dc_nominal_hook solver_type_per_imp fr =
     (if ''Hartree'' \<in> set solver_type_per_imp then Inl NotImplementedError
      else (let sk = fr_sum_k fr; imp = dc_imp sk
            in rbind (for_each (dc_nominal_shell (fr_density_matrix fr) (corr_to_inequiv sk) imp)
                        [0..<n_corr_shells sk] (dc_energ sk))
                 (\<lambda>dc_new_en. Inr (fr\<lparr>fr_sum_k := set_dc imp dc_new_en sk\<rparr>))))"

text \<open>Rescaling of every potential and energy by \<^verbatim>\<open>dc_factor\<close>.\<close>

definition dc_rescale_hook :: "real \<Rightarrow> dc_frame \<Rightarrow> dc_frame" where
  "dc_rescale_hook factor fr =
     (let sk = fr_sum_k fr;
          rescaled_dc_imp = map (map (\<lambda>(spin, dc_per_spin). (spin, smult factor dc_per_spin)))
                                (dc_imp sk);
          rescaled_dc_energy = map (\<lambda>energy_per_shell. factor * energy_per_shell) (dc_energ sk)
      in fr\<lparr>fr_sum_k := set_dc rescaled_dc_imp rescaled_dc_energy sk\<rparr>)"

text \<open>
  Orbital-dependent shift. A copy of the list of shifts is cut from the front into one
  slice per inequivalent shell, of the length \<^verbatim>\<open>corr_shells[icrsh]['dim']\<close> (a slice is
  shorter when the list runs out); the slices become the rows of an array; row
  \<open>icrsh\<close> is added as a diagonal matrix to every block of the potential of shell
  \<^verbatim>\<open>inequiv_to_corr[icrsh]\<close>, and every correlated shell gets the dictionary of its
  inequivalent shell. The accumulated \<^verbatim>\<open>tot_norb\<close> is never read.
\<close>

fun cut_shifts :: "nat list \<Rightarrow> real list \<Rightarrow> real list list" where
  "cut_shifts [] orig = []"
| "cut_shifts (d # ds) orig = take d orig # cut_shifts ds (drop d orig)"

definition shifted_dc_site ::
  "sumk \<Rightarrow> real list list \<Rightarrow> nat \<Rightarrow> py_error + rmatrix pydict" where
  "shifted_dc_site sk shift_rows icrsh =
     rbind (py_nth (inequiv_to_corr sk) icrsh)
       (\<lambda>ish. rbind (py_nth (dc_imp sk) ish)
          (\<lambda>dc_shell. map_result
             (\<lambda>(spin, dc_per_spin).
                rbind (np_add dc_per_spin (diag (shift_rows ! icrsh)))
                  (\<lambda>m. Inr (spin, m)))
             dc_shell))"

definition dc_orb_shift_hook ::
  "string list \<Rightarrow> real list \<Rightarrow> dc_frame \<Rightarrow> py_error + dc_frame" where
  "dc_orb_shift_hook solver_type_per_imp shifts fr =
     (if ''Hartree'' \<in> set solver_type_per_imp then Inl NotImplementedError
      else (let sk = fr_sum_k fr
            in rbind (map_result (py_nth (corr_shells_dim sk)) [0..<n_inequiv_shells sk])
                 (\<lambda>dims. rbind (np_array (cut_shifts dims shifts))
                    (\<lambda>shift_rows.
                       rbind (map_result (shifted_dc_site sk shift_rows)
                                [0..<n_inequiv_shells sk])
                         (\<lambda>dc. rbind (for_each
                                        (\<lambda>ish imp. rbind (py_nth (corr_to_inequiv sk) ish)
                                           (\<lambda>iineq. rbind (py_nth dc iineq)
                                              (\<lambda>d. py_set imp ish d)))
                                        [0..<n_corr_shells sk] (dc_imp sk))
                                  (\<lambda>imp. Inr (fr\<lparr>fr_sum_k := sk\<lparr>dc_imp := imp\<rparr>\<rparr>)))))))"

text \<open>
  The hooks that follow the base formula, in the order of the source: the nominal
  correction, then the rescaling and the orbital shift.
\<close>

definition dc_late_hooks ::
  "('p, 'm) advanced \<Rightarrow> string list \<Rightarrow> dc_frame \<Rightarrow> py_error + dc_frame" where
  "dc_late_hooks advanced_params solver_type_per_imp fr =
     (let fr' = (case dc_factor advanced_params of
                   None \<Rightarrow> fr
                 | Some factor \<Rightarrow> dc_rescale_hook factor fr)
      in (case dc_orb_shift advanced_params of
            None \<Rightarrow> Inr fr'
          | Some shifts \<Rightarrow> dc_orb_shift_hook solver_type_per_imp shifts fr'))"

definition dc_hooks ::
  "('p, 'm) advanced \<Rightarrow> string list \<Rightarrow> dc_frame \<Rightarrow> py_error + dc_frame" where
  "dc_hooks advanced_params solver_type_per_imp fr =
     rbind (if dc_nominal advanced_params then dc_nominal_hook solver_type_per_imp fr
            else Inr fr)
       (dc_late_hooks advanced_params solver_type_per_imp)"

text \<open>
  The whole function; it returns the final frame, whose \<open>fr_sum_k\<close> is the returned
  object and whose \<open>fr_density_matrix\<close> is the caller's list after the call.
\<close>

definition calculate_double_counting ::
  "dc_formula \<Rightarrow> (sumk \<Rightarrow> nat \<Rightarrow> dc_tag \<Rightarrow> py_error + rmatrix pydict)
   \<Rightarrow> sumk \<Rightarrow> density list \<Rightarrow> general \<Rightarrow> ('p, 'm) advanced \<Rightarrow> string list
   \<Rightarrow> py_error + dc_frame" where
  "calculate_double_counting formula crpa sum_k density_matrix general_params advanced_params
       solver_type_per_imp =
     (let fr0 = \<lparr>fr_sum_k = sum_k, fr_density_matrix = density_matrix,
                 fr_density_matrix_DC = density_matrix\<rparr>;
          icrsh_hartree = indices_where (\<lambda>type. type = ''hartree'') solver_type_per_imp;
          icrsh_not_hartree = indices_where (\<lambda>type. type \<noteq> ''hartree'') solver_type_per_imp
      in rbind (dc_zero_hartree formula icrsh_hartree fr0)
           (\<lambda>fr1. case dc_fixed_value advanced_params of
                     Some v \<Rightarrow> dc_fixed_value_stage formula v icrsh_not_hartree fr1
                   | None \<Rightarrow>
                       rbind (dc_fixed_occ_stage (dc_fixed_occ advanced_params)
                                icrsh_not_hartree fr1)
                         (\<lambda>fr2. rbind (dc_base_formula formula crpa general_params
                                         advanced_params icrsh_not_hartree fr2)
                            (dc_hooks advanced_params solver_type_per_imp))))"

section \<open>Example objects\<close>

text \<open>
  A lattice with one impurity of one orbital, and the parameter dictionaries of a plain
  run; the examples below vary them field by field.
\<close>

definition sk_one :: sumk where
  "sk_one = \<lparr>SO = 0, n_inequiv_shells = 1, n_corr_shells = 1, corr_to_inequiv = [0],
     inequiv_to_corr = [0], corr_shells_dim = [1],
     gf_struct_solver = [[(''up_0'', 1), (''down_0'', 1)]],
     solver_to_sumk = [[((''up_0'', 0), (''up'', 0)), ((''down_0'', 0), (''down'', 0))]],
     use_rotations = False, deg_shells = [Some []],
     dc_imp = [[(''up'', [[0]]), (''down'', [[0]])]], dc_energ = [0], Sigma_imp = []\<rparr>"

definition gp_one :: general where
  "gp_one = \<lparr>block_threshold = 1 / 100, enforce_off_diag = [False], magnetic = False,
     dc_type = [DcInt 0]\<rparr>"

definition ap_one :: "(unit, unit) advanced" where
  "ap_one = \<lparr>pick_solver_struct = [None], map_solver_struct = [None],
     mapped_solver_struct_degeneracies = [None], dc_fixed_value = None,
     dc_fixed_occ = [None], dc_U = [4], dc_J = [1], dc_nominal = False,
     dc_factor = None, dc_orb_shift = None\<rparr>"

text \<open>An analysis that finds, at every call, one group of four degenerate blocks.\<close>

definition analyse_four :: "unit \<Rightarrow> real \<Rightarrow> nat list \<Rightarrow> sumk \<Rightarrow> sumk" where
  "analyse_four dens_mat threshold include_shells sum_k =
     sum_k\<lparr>deg_shells := [Some [[''up_0'', ''up_1'', ''down_0'', ''down_1'']]]\<rparr>"

text \<open>
  An instance of the library formula, of the shape of the fully localised limit for a
  run without spin polarisation, and a GW embedding that is never reached.
\<close>

definition example_formula :: dc_formula where
  "example_formula sum_k icrsh dens_mat U J tag =
     rbind (py_nth (corr_to_inequiv sum_k) icrsh)
       (\<lambda>ish. rbind (Ncrtot sum_k ish dens_mat)
          (\<lambda>n. rbind (py_nth (corr_shells_dim sum_k) icrsh)
             (\<lambda>d. Inr (map (\<lambda>sp. (sp, smult (U * (n - 1 / 2) - J * (n / 2 - 1 / 2))
                                          (identity d)))
                          [''up'', ''down''],
                        U / 2 * n * (n - 1) - J * (n / 2) * (n / 2 - 1)))))"

definition no_crpa :: "sumk \<Rightarrow> nat \<Rightarrow> dc_tag \<Rightarrow> py_error + rmatrix pydict" where
  "no_crpa sum_k icrsh tag = Inl KeyError"

text \<open>The density matrix of the impurity: half an electron in each spin block.\<close>

definition dm_one :: "density list" where
  "dm_one = [[(''up_0'', [[1 / 2]]), (''down_0'', [[1 / 2]])]]"

section \<open>Properties\<close>

subsection \<open>Loops and comprehensions\<close>

lemma map_result_set:
  "map_result f xs = Inr ys \<Longrightarrow> y \<in> set ys \<Longrightarrow> \<exists>x\<in>set xs. f x = Inr y"
  by (induction xs arbitrary: ys) (auto split: sum.splits)

lemma for_each_invariant:
  assumes "for_each f xs s = Inr s'" and "P s"
    and "\<And>x t t'. x \<in> set xs \<Longrightarrow> P t \<Longrightarrow> f x t = Inr t' \<Longrightarrow> P t'"
  shows "P s'"
  using assms
proof (induction xs arbitrary: s)
  case Nil
  then show ?case by simp
next
  case (Cons x xs)
  from Cons.prems(1) obtain t where t: "f x s = Inr t" and rest: "for_each f xs t = Inr s'"
    by (auto split: sum.splits)
  have "P t" using Cons.prems(3) [of x s t] Cons.prems(2) t by simp
  then show ?case
    by (rule Cons.IH [OF rest]) (rule Cons.prems(3), simp_all)
qed

subsection \<open>Per-impurity parameters\<close>

text \<open>
  C8. For a parameter present in the dictionary, \<^verbatim>\<open>_extract_quantity_per_inequiv\<close>
  replaces a value that is not a list by the list of \<open>n_inequiv_shells\<close> copies of it,
  returns the dictionary unchanged for a list of length \<open>n_inequiv_shells\<close>, and raises
  IndexError for a list of any other length.
\<close>

theorem extract_quantity_per_inequiv_cases:
  assumes "general_params param_name = Some param"
  shows "((\<forall>ps. param \<noteq> PList ps) \<longrightarrow>
            extract_quantity_per_inequiv param_name n general_params =
              Inr (general_params(param_name \<mapsto> PList (replicate (nat n) param)))
            \<and> (0 \<le> n \<longrightarrow> int (length (replicate (nat n) param)) = n))
       \<and> (\<forall>ps. param = PList ps \<and> int (length ps) = n \<longrightarrow>
            extract_quantity_per_inequiv param_name n general_params = Inr general_params)
       \<and> (\<forall>ps. param = PList ps \<and> int (length ps) \<noteq> n \<longrightarrow>
            extract_quantity_per_inequiv param_name n general_params = Inl IndexError)"
  using assms by (cases param) (simp_all add: extract_quantity_per_inequiv_def)

theorem extract_quantity_per_inequiv_witness:
  "extract_quantity_per_inequiv ''U'' 3 [''U'' \<mapsto> PFloat 4] =
     Inr [''U'' \<mapsto> PList [PFloat 4, PFloat 4, PFloat 4]]
   \<and> extract_quantity_per_inequiv ''U'' 2 [''U'' \<mapsto> PList [PFloat 4, PFloat 2]] =
     Inr [''U'' \<mapsto> PList [PFloat 4, PFloat 2]]
   \<and> extract_quantity_per_inequiv ''U'' 3 [''U'' \<mapsto> PList [PFloat 4, PFloat 2]] =
     Inl IndexError"
proof -
  have a: "[''U'' \<mapsto> PFloat 4] ''U'' = Some (PFloat 4)" by simp
  have b: "[''U'' \<mapsto> PList [PFloat 4, PFloat 2]] ''U'' = Some (PList [PFloat 4, PFloat 2])"
    by simp
  have r3: "replicate 3 (PFloat 4) = [PFloat 4, PFloat 4, PFloat 4]"
    by (simp add: numeral_3_eq_3)
  have "extract_quantity_per_inequiv ''U'' 3 [''U'' \<mapsto> PFloat 4] =
          Inr [''U'' \<mapsto> PList [PFloat 4, PFloat 4, PFloat 4]]"
    using a extract_quantity_per_inequiv_cases
        [of "[''U'' \<mapsto> PFloat 4]" "''U''" "PFloat 4" 3]
    by (simp add: r3)
  moreover have "extract_quantity_per_inequiv ''U'' 2 [''U'' \<mapsto> PList [PFloat 4, PFloat 2]] =
          Inr [''U'' \<mapsto> PList [PFloat 4, PFloat 2]]"
    using b extract_quantity_per_inequiv_cases
        [of "[''U'' \<mapsto> PList [PFloat 4, PFloat 2]]" "''U''" "PList [PFloat 4, PFloat 2]" 2]
    by simp
  moreover have "extract_quantity_per_inequiv ''U'' 3 [''U'' \<mapsto> PList [PFloat 4, PFloat 2]] =
          Inl IndexError"
    using b extract_quantity_per_inequiv_cases
        [of "[''U'' \<mapsto> PList [PFloat 4, PFloat 2]]" "''U''" "PList [PFloat 4, PFloat 2]" 3]
    by simp
  ultimately show ?thesis by simp
qed

subsection \<open>The convergence flag\<close>

text \<open>
  C1, as stated, fails: with the flag true on entry and an indeterminate result of the
  convergence check, the step returns false.
\<close>

theorem dmft_step_none_resets_counterexample:
  "dmft_step False False None True = Inr False"
  by (simp add: dmft_step_def)

text \<open>
  C1, amended. For every call to \<^verbatim>\<open>_dmft_step\<close> that returns: when the convergence
  check gives \<^verbatim>\<open>None\<close> the returned flag is false whatever the flag on entry; when it
  gives a definite result the returned flag is the flag on entry or that result, so a
  flag that is true on entry stays true.
\<close>

theorem dmft_step_flag:
  assumes "dmft_step dc dc_dmft is_now_converged is_converged = Inr flag"
  shows "(is_now_converged = None \<longrightarrow> \<not> flag)
       \<and> (\<forall>now. is_now_converged = Some now \<longrightarrow> flag = (is_converged \<or> now))
       \<and> (is_converged \<and> is_now_converged \<noteq> None \<longrightarrow> flag)"
  using assms by (auto simp: dmft_step_def split: if_splits option.splits)

theorem dmft_step_flag_witness:
  "dmft_step False False (Some False) True = Inr True
   \<and> dmft_step False False (Some True) False = Inr True
   \<and> dmft_step False False None False = Inr False"
proof -
  have a: "dmft_step False False (Some False) True = Inr True"
    by (simp add: dmft_step_def)
  have b: "dmft_step False False (Some True) False = Inr True"
    by (simp add: dmft_step_def)
  have c: "dmft_step False False None False = Inr False"
    by (simp add: dmft_step_def)
  have "True = (True \<or> False)"
    using dmft_step_flag [OF a] by simp
  with a b c show ?thesis by (intro conjI)
qed

subsection \<open>Degeneracies of the block structure\<close>

lemma lift_spin_group_one_spin:
  "g \<in> set (lift_spin_group deg_orbs) \<Longrightarrow>
     (\<forall>l\<in>set g. str_in ''up'' l) \<or> (\<forall>l\<in>set g. str_in ''down'' l)"
  by (auto simp: lift_spin_group_def Let_def split: if_splits)

lemma lift_spin_site_one_spin:
  assumes "map_result lift_spin_site dss = Inr ds" and "site \<in> set ds"
  shows "\<exists>groups. site = Some groups \<and>
           (\<forall>g\<in>set groups. (\<forall>l\<in>set g. str_in ''up'' l) \<or> (\<forall>l\<in>set g. str_in ''down'' l))"
proof -
  from map_result_set [OF assms] obtain x where x: "lift_spin_site x = Inr site"
    by blast
  then obtain groups where "x = Some groups"
      and "site = Some (concat (map lift_spin_group groups))"
    by (auto simp: lift_spin_site_def split: option.splits)
  then show ?thesis using lift_spin_group_one_spin by auto
qed

lemma lift_degeneracies_result:
  assumes "lift_degeneracies m sk3 = Inr sk'"
  shows "(m \<and> SO sk' = 0 \<longrightarrow>
            (\<forall>site\<in>set (deg_shells sk'). \<exists>groups. site = Some groups \<and>
               (\<forall>g\<in>set groups. (\<forall>l\<in>set g. str_in ''up'' l)
                                \<or> (\<forall>l\<in>set g. str_in ''down'' l))))
       \<and> (SO sk' = 1 \<longrightarrow> deg_shells sk' = replicate (n_inequiv_shells sk') (Some []))"
proof (cases "m \<and> SO sk3 = 0")
  case True
  with assms obtain ds where ds: "map_result lift_spin_site (deg_shells sk3) = Inr ds"
      and sk': "sk' = sk3\<lparr>deg_shells := ds\<rparr>"
    by (auto simp: lift_degeneracies_def rbind_def split: sum.splits)
  show ?thesis using lift_spin_site_one_spin [OF ds] True by (simp add: sk')
next
  case False
  with assms show ?thesis
    by (auto simp: lift_degeneracies_def split: if_splits)
qed

lemma determine_block_structure_last_step:
  assumes "determine_block_structure analyse pick mapg sum_k gp ap types dm = Inr (sk', ftps)"
  shows "\<exists>sk3. lift_degeneracies (magnetic gp) sk3 = Inr sk'"
  using assms unfolding determine_block_structure_def Let_def rbind_def
  by (auto split: if_splits sum.splits)

text \<open>
  C5. When \<^verbatim>\<open>_determine_block_structure\<close> returns: in a magnetic run without
  spin-orbit coupling every site has a list of degeneracy groups, and each group
  holds only labels containing \<^verbatim>\<open>up\<close> or only labels containing \<^verbatim>\<open>down\<close>; with
  spin-orbit coupling the list of groups is empty for every inequivalent shell.
\<close>

theorem determine_block_structure_degeneracies:
  assumes "determine_block_structure analyse pick mapg sum_k gp ap types dm = Inr (sk', ftps)"
  shows "(magnetic gp \<and> SO sk' = 0 \<longrightarrow>
            (\<forall>site\<in>set (deg_shells sk'). \<exists>groups. site = Some groups \<and>
               (\<forall>g\<in>set groups. (\<forall>l\<in>set g. str_in ''up'' l)
                                \<or> (\<forall>l\<in>set g. str_in ''down'' l))))
       \<and> (SO sk' = 1 \<longrightarrow> deg_shells sk' = replicate (n_inequiv_shells sk') (Some []))"
  using determine_block_structure_last_step [OF assms] lift_degeneracies_result by blast

lemmas block_structure_eval =
  determine_block_structure_def ftps_degeneracies_def apply_manual_mapping_def
  lift_degeneracies_def lift_spin_site_def lift_spin_group_def indices_where_def rbind_def
  analyse_four_def sk_one_def gp_one_def ap_one_def Let_def enumerate_eq_zip

theorem determine_block_structure_degeneracies_witness:
  "determine_block_structure analyse_four (\<lambda>p sk. sk) (\<lambda>m sk. sk) sk_one
      (gp_one\<lparr>magnetic := True\<rparr>) ap_one [''cthyb''] ()
     = Inr (sk_one\<lparr>deg_shells := [Some [[''up_0'', ''up_1''], [''down_0'', ''down_1'']]]\<rparr>,
            None)
   \<and> determine_block_structure analyse_four (\<lambda>p sk. sk) (\<lambda>m sk. sk) (sk_one\<lparr>SO := 1\<rparr>)
      gp_one ap_one [''cthyb''] ()
     = Inr (sk_one\<lparr>SO := 1, deg_shells := [Some []]\<rparr>, None)
   \<and> deg_shells (sk_one\<lparr>SO := 1, deg_shells := [Some []]\<rparr>) =
       replicate (n_inequiv_shells (sk_one\<lparr>SO := 1, deg_shells := [Some []]\<rparr>)) (Some [])"
proof -
  have a: "determine_block_structure analyse_four (\<lambda>p sk. sk) (\<lambda>m sk. sk) sk_one
      (gp_one\<lparr>magnetic := True\<rparr>) ap_one [''cthyb''] ()
     = Inr (sk_one\<lparr>deg_shells := [Some [[''up_0'', ''up_1''], [''down_0'', ''down_1'']]]\<rparr>,
            None)"
    by (simp add: block_structure_eval)
  have b: "determine_block_structure analyse_four (\<lambda>p sk. sk) (\<lambda>m sk. sk) (sk_one\<lparr>SO := 1\<rparr>)
      gp_one ap_one [''cthyb''] ()
     = Inr (sk_one\<lparr>SO := 1, deg_shells := [Some []]\<rparr>, None)"
    by (simp add: block_structure_eval)
  have c: "deg_shells (sk_one\<lparr>SO := 1, deg_shells := [Some []]\<rparr>) =
       replicate (n_inequiv_shells (sk_one\<lparr>SO := 1, deg_shells := [Some []]\<rparr>)) (Some [])"
    using determine_block_structure_degeneracies [OF b] by (simp add: sk_one_def)
  note determine_block_structure_degeneracies [OF a]
  from a b c show ?thesis by (intro conjI)
qed

subsection \<open>Double counting: the caller's density matrix\<close>

lemmas double_counting_eval =
  calculate_double_counting_def indices_where_def dc_zero_hartree_def
  calc_dc_on_copy_def calc_dc_def calc_dc_shell_def rbind_def py_nth_def py_set_def
  spin_block_names_def Ncrtot_def dict_get_def trace_real_def smult_def identity_def
  dc_fixed_occ_stage_def dc_fixed_occ_site_def dc_base_formula_def dc_base_site_def
  crpa_tags_def dc_hooks_def dc_late_hooks_def dc_nominal_hook_def dc_nominal_shell_def
  nominal_energy_def n_DC_def set_dc_def dc_rescale_hook_def dc_orb_shift_hook_def
  shifted_dc_site_def np_array_def np_add_def broadcast2_def shape_def bdim_def diag_def
  fill_diagonal_def dc_fixed_value_stage_def sk_one_def dm_one_def gp_one_def ap_one_def
  example_formula_def no_crpa_def upt_rec Let_def enumerate_eq_zip

lemma calc_dc_on_copy_frame:
  "calc_dc_on_copy F req icrsh fr = Inr fr' \<Longrightarrow> fr_density_matrix fr' = fr_density_matrix fr"
  by (auto simp: calc_dc_on_copy_def rbind_def split: sum.splits)

lemma dc_fixed_occ_site_frame:
  "dc_fixed_occ_site occ icrsh fr = Inr fr' \<Longrightarrow> fr_density_matrix fr' = fr_density_matrix fr"
  by (auto simp: dc_fixed_occ_site_def rbind_def Let_def
           split: sum.splits option.splits if_splits)

lemma dc_base_site_frame:
  "dc_base_site F crpa gp ap icrsh fr = Inr fr' \<Longrightarrow>
     fr_density_matrix fr' = fr_density_matrix fr"
  by (auto simp: dc_base_site_def rbind_def split: sum.splits if_splits
           dest: calc_dc_on_copy_frame)

lemma dc_nominal_hook_frame:
  "dc_nominal_hook types fr = Inr fr' \<Longrightarrow> fr_density_matrix fr' = fr_density_matrix fr"
  by (auto simp: dc_nominal_hook_def rbind_def Let_def split: sum.splits if_splits)

lemma dc_rescale_hook_frame:
  "fr_density_matrix (dc_rescale_hook f fr) = fr_density_matrix fr"
  by (simp add: dc_rescale_hook_def Let_def)

lemma dc_orb_shift_hook_frame:
  "dc_orb_shift_hook types shifts fr = Inr fr' \<Longrightarrow>
     fr_density_matrix fr' = fr_density_matrix fr"
  by (auto simp: dc_orb_shift_hook_def rbind_def Let_def split: sum.splits if_splits)

lemma dc_late_hooks_frame:
  "dc_late_hooks ap types fr = Inr fr' \<Longrightarrow> fr_density_matrix fr' = fr_density_matrix fr"
  by (auto simp: dc_late_hooks_def Let_def dc_rescale_hook_frame split: option.splits
           dest!: dc_orb_shift_hook_frame)

lemma dc_hooks_frame:
  "dc_hooks ap types fr = Inr fr' \<Longrightarrow> fr_density_matrix fr' = fr_density_matrix fr"
  by (auto simp: dc_hooks_def rbind_def split: sum.splits if_splits
           dest!: dc_late_hooks_frame dc_nominal_hook_frame)

lemma for_each_frame:
  assumes "for_each f xs fr = Inr fr'"
    and "\<And>x t t'. f x t = Inr t' \<Longrightarrow> fr_density_matrix t' = fr_density_matrix t"
  shows "fr_density_matrix fr' = fr_density_matrix fr"
  by (rule for_each_invariant
        [OF assms(1), where P = "\<lambda>t. fr_density_matrix t = fr_density_matrix fr"])
     (simp_all add: assms(2))

text \<open>
  C9. Whenever \<^verbatim>\<open>calculate_double_counting\<close> returns, the caller's list
  \<^verbatim>\<open>density_matrix\<close> holds what it held on entry: the fixed-occupation override and
  the formulas work on the deep copy.
\<close>

theorem calculate_double_counting_keeps_density_matrix:
  assumes "calculate_double_counting F crpa sum_k density_matrix gp ap types = Inr fr"
  shows "fr_density_matrix fr = density_matrix"
proof -
  let ?fr0 = "\<lparr>fr_sum_k = sum_k, fr_density_matrix = density_matrix,
                 fr_density_matrix_DC = density_matrix\<rparr>"
  let ?h = "indices_where (\<lambda>type. type = ''hartree'') types"
  let ?nh = "indices_where (\<lambda>type. type \<noteq> ''hartree'') types"
  from assms obtain fr1 where 1: "dc_zero_hartree F ?h ?fr0 = Inr fr1"
    and rest: "(case dc_fixed_value ap of
                     Some v \<Rightarrow> dc_fixed_value_stage F v ?nh fr1
                   | None \<Rightarrow>
                       rbind (dc_fixed_occ_stage (dc_fixed_occ ap) ?nh fr1)
                         (\<lambda>fr2. rbind (dc_base_formula F crpa gp ap ?nh fr2)
                            (dc_hooks ap types))) = Inr fr"
    by (auto simp: calculate_double_counting_def Let_def rbind_def split: sum.splits)
  have d1: "fr_density_matrix fr1 = density_matrix"
    using for_each_frame [OF 1 [unfolded dc_zero_hartree_def] calc_dc_on_copy_frame] by simp
  show ?thesis
  proof (cases "dc_fixed_value ap")
    case (Some v)
    with rest have "dc_fixed_value_stage F v ?nh fr1 = Inr fr" by simp
    from for_each_frame [OF this [unfolded dc_fixed_value_stage_def] calc_dc_on_copy_frame] d1
    show ?thesis by simp
  next
    case None
    with rest obtain fr2 fr3 where 2: "dc_fixed_occ_stage (dc_fixed_occ ap) ?nh fr1 = Inr fr2"
      and 3: "dc_base_formula F crpa gp ap ?nh fr2 = Inr fr3"
      and 4: "dc_hooks ap types fr3 = Inr fr"
      by (auto simp: rbind_def split: sum.splits)
    have "fr_density_matrix fr2 = fr_density_matrix fr1"
      using for_each_frame [OF 2 [unfolded dc_fixed_occ_stage_def] dc_fixed_occ_site_frame] .
    moreover have "fr_density_matrix fr3 = fr_density_matrix fr2"
      using for_each_frame [OF 3 [unfolded dc_base_formula_def] dc_base_site_frame] .
    ultimately show ?thesis using dc_hooks_frame [OF 4] d1 by simp
  qed
qed

text \<open>
  A call with a fixed occupation of 3/2: the copy's diagonals become 3/4, the caller's
  density matrix keeps its 1/2.
\<close>

theorem calculate_double_counting_keeps_density_matrix_witness:
  "calculate_double_counting example_formula no_crpa sk_one dm_one gp_one
      (ap_one\<lparr>dc_fixed_occ := [Some (3 / 2)]\<rparr>) [''cthyb'']
   = Inr \<lparr>fr_sum_k = sk_one\<lparr>dc_imp := [[(''up'', [[15 / 4]]), (''down'', [[15 / 4]])]],
                             dc_energ := [27 / 16]\<rparr>,
          fr_density_matrix = dm_one,
          fr_density_matrix_DC = [[(''up_0'', [[3 / 4]]), (''down_0'', [[3 / 4]])]]\<rparr>
   \<and> fr_density_matrix
        \<lparr>fr_sum_k = sk_one\<lparr>dc_imp := [[(''up'', [[15 / 4]]), (''down'', [[15 / 4]])]],
                             dc_energ := [27 / 16]\<rparr>,
          fr_density_matrix = dm_one,
          fr_density_matrix_DC = [[(''up_0'', [[3 / 4]]), (''down_0'', [[3 / 4]])]]\<rparr> = dm_one"
proof -
  have a: "calculate_double_counting example_formula no_crpa sk_one dm_one gp_one
      (ap_one\<lparr>dc_fixed_occ := [Some (3 / 2)]\<rparr>) [''cthyb'']
   = Inr \<lparr>fr_sum_k = sk_one\<lparr>dc_imp := [[(''up'', [[15 / 4]]), (''down'', [[15 / 4]])]],
                             dc_energ := [27 / 16]\<rparr>,
          fr_density_matrix = dm_one,
          fr_density_matrix_DC = [[(''up_0'', [[3 / 4]]), (''down_0'', [[3 / 4]])]]\<rparr>"
    by (simp add: double_counting_eval)
  note b = calculate_double_counting_keeps_density_matrix [OF a]
  from a b show ?thesis by (intro conjI)
qed

subsection \<open>Double counting: the guard against the Hartree solver\<close>

text \<open>
  C3, at the failing input. One impurity solved by the \<^verbatim>\<open>hartree\<close> solver and
  \<^verbatim>\<open>dc_nominal\<close> set: the guard of the nominal hook looks for the string
  \<^verbatim>\<open>Hartree\<close>, which is not the type \<^verbatim>\<open>hartree\<close> the function tests everywhere else,
  so no error is raised and the hook runs.
\<close>

theorem nominal_with_hartree_returns:
  "calculate_double_counting example_formula no_crpa sk_one dm_one gp_one
      (ap_one\<lparr>dc_nominal := True\<rparr>) [''hartree'']
   = Inr \<lparr>fr_sum_k = sk_one, fr_density_matrix = dm_one, fr_density_matrix_DC = dm_one\<rparr>"
  by (simp add: double_counting_eval)

text \<open>
  C6, at the failing input. One impurity solved by the \<^verbatim>\<open>hartree\<close> solver and an
  orbital shift of 1/2: the same guard does not fire in the shift hook, and the
  returned potential of the impurity is 1/2 instead of zero.
\<close>

theorem hartree_potential_shifted:
  "calculate_double_counting example_formula no_crpa sk_one dm_one gp_one
      (ap_one\<lparr>dc_orb_shift := Some [1 / 2]\<rparr>) [''hartree'']
   = Inr \<lparr>fr_sum_k = sk_one\<lparr>dc_imp := [[(''up'', [[1 / 2]]), (''down'', [[1 / 2]])]]\<rparr>,
          fr_density_matrix = dm_one, fr_density_matrix_DC = dm_one\<rparr>"
  by (simp add: double_counting_eval)

end
